theory Spec2Isabelle
  imports Complex_Main "HOL-Library.AList" "HOL-Library.Multiset"
begin

section \<open>Python values\<close>

text \<open>
  Exceptions of the metrics package, as values. \<open>ValueError\<close> carries the message that
  \<open>robustness\<close> formats; \<open>ShapeError\<close> is the \<open>ValueError\<close> that numpy raises when the
  arrays given to \<open>np.mean(..., axis=0)\<close> do not have one common shape.
\<close>

datatype error = ValueError string | KeyError | TypeError | ZeroDivisionError | ShapeError

text \<open>
  A float is a finite value, an infinity or NaN. Finite values are reals: rounding,
  overflow and the sign of zero are not modelled.
\<close>

datatype pyfloat = Fin real | PInf | NInf | NaN

fun fneg :: "pyfloat \<Rightarrow> pyfloat" where
  "fneg (Fin a) = Fin (- a)"
| "fneg PInf = NInf"
| "fneg NInf = PInf"
| "fneg NaN = NaN"

fun fadd :: "pyfloat \<Rightarrow> pyfloat \<Rightarrow> pyfloat" where
  "fadd (Fin a) (Fin b) = Fin (a + b)"
| "fadd (Fin a) PInf = PInf"
| "fadd (Fin a) NInf = NInf"
| "fadd PInf (Fin b) = PInf"
| "fadd PInf PInf = PInf"
| "fadd PInf NInf = NaN"
| "fadd NInf (Fin b) = NInf"
| "fadd NInf NInf = NInf"
| "fadd NInf PInf = NaN"
| "fadd NaN y = NaN"
| "fadd x NaN = NaN"

definition fsub :: "pyfloat \<Rightarrow> pyfloat \<Rightarrow> pyfloat" where
  "fsub x y = fadd x (fneg y)"

fun fmul :: "pyfloat \<Rightarrow> pyfloat \<Rightarrow> pyfloat" where
  "fmul (Fin a) (Fin b) = Fin (a * b)"
| "fmul (Fin a) PInf = (if a = 0 then NaN else if 0 < a then PInf else NInf)"
| "fmul (Fin a) NInf = (if a = 0 then NaN else if 0 < a then NInf else PInf)"
| "fmul PInf (Fin b) = (if b = 0 then NaN else if 0 < b then PInf else NInf)"
| "fmul NInf (Fin b) = (if b = 0 then NaN else if 0 < b then NInf else PInf)"
| "fmul PInf PInf = PInf"
| "fmul PInf NInf = NInf"
| "fmul NInf PInf = NInf"
| "fmul NInf NInf = PInf"
| "fmul NaN y = NaN"
| "fmul x NaN = NaN"

text \<open>
  IEEE division, which is what numpy's float64 does: a zero divisor gives an infinity or
  NaN (with a warning), never an exception.
\<close>

fun fdiv :: "pyfloat \<Rightarrow> pyfloat \<Rightarrow> pyfloat" where
  "fdiv (Fin a) (Fin b) =
     (if b = 0 then (if a = 0 then NaN else if 0 < a then PInf else NInf)
      else Fin (a / b))"
| "fdiv (Fin a) PInf = Fin 0"
| "fdiv (Fin a) NInf = Fin 0"
| "fdiv PInf (Fin b) = (if 0 \<le> b then PInf else NInf)"
| "fdiv NInf (Fin b) = (if 0 \<le> b then NInf else PInf)"
| "fdiv PInf PInf = NaN"
| "fdiv PInf NInf = NaN"
| "fdiv NInf PInf = NaN"
| "fdiv NInf NInf = NaN"
| "fdiv NaN y = NaN"
| "fdiv x NaN = NaN"

text \<open>Python's \<open>/\<close> on floats raises \<open>ZeroDivisionError\<close> on a zero divisor.\<close>

definition py_div :: "pyfloat \<Rightarrow> pyfloat \<Rightarrow> error + pyfloat" where
  "py_div x y = (if y = Fin 0 then Inl ZeroDivisionError else Inr (fdiv x y))"

text \<open>Comparisons: every comparison with NaN is false.\<close>

fun flt :: "pyfloat \<Rightarrow> pyfloat \<Rightarrow> bool" where
  "flt (Fin a) (Fin b) = (a < b)"
| "flt (Fin a) PInf = True"
| "flt NInf (Fin b) = True"
| "flt NInf PInf = True"
| "flt x y = False"

fun fle :: "pyfloat \<Rightarrow> pyfloat \<Rightarrow> bool" where
  "fle (Fin a) (Fin b) = (a \<le> b)"
| "fle (Fin a) PInf = True"
| "fle NInf (Fin b) = True"
| "fle NInf PInf = True"
| "fle PInf PInf = True"
| "fle NInf NInf = True"
| "fle x y = False"

text \<open>Python's two-argument \<open>min\<close> and \<open>max\<close> return the first argument unless the second
  is strictly smaller (larger).\<close>

definition py_min :: "pyfloat \<Rightarrow> pyfloat \<Rightarrow> pyfloat" where
  "py_min x y = (if flt y x then y else x)"

text \<open>\<open>x.sum()\<close> of a numpy array, and \<open>np.mean\<close> of a list of floats.\<close>

definition fsum :: "pyfloat list \<Rightarrow> pyfloat" where
  "fsum xs = foldl fadd (Fin 0) xs"

definition np_mean_f :: "pyfloat list \<Rightarrow> pyfloat" where
  "np_mean_f xs = fdiv (fsum xs) (Fin (real (length xs)))"

text \<open>\<open>np.mean\<close> of a list of finite values.\<close>

definition np_mean :: "real list \<Rightarrow> real" where
  "np_mean xs = sum_list xs / real (length xs)"

section \<open>Formula library\<close>

text \<open>\<open>throughput.py\<close>: times are finite, the division is guarded.\<close>

definition throughput :: "int \<Rightarrow> real \<Rightarrow> real" where
  "throughput num_entangled_states total_time =
     (if total_time \<le> 0 then 0 else real_of_int num_entangled_states / total_time)"

text \<open>\<open>latency.py\<close>.\<close>

definition request_latency :: "real \<Rightarrow> real \<Rightarrow> real" where
  "request_latency completion_t request_t = completion_t - request_t"

definition unit_latency :: "real \<Rightarrow> int \<Rightarrow> pyfloat" where
  "unit_latency total_time n =
     (if n \<le> 0 then PInf else Fin (total_time / real_of_int n))"

definition scaled_latency :: "real \<Rightarrow> int \<Rightarrow> pyfloat" where
  "scaled_latency req_latency n =
     (if n \<le> 0 then PInf else Fin (req_latency / real_of_int n))"

text \<open>
  \<open>fairness.py\<close>: Jain's index on a numpy array; only the empty array is guarded. The
  arithmetic of the model is exact, so its value is the float64 value of the code where
  no operation of the code rounds or overflows.
\<close>

definition fairness :: "pyfloat list \<Rightarrow> pyfloat" where
  "fairness x =
     (if length x = 0 then Fin 1
      else fdiv (fmul (fsum x) (fsum x))
                (fmul (Fin (real (length x))) (fsum (map (\<lambda>v. fmul v v) x))))"

text \<open>\<open>robustness.py\<close>: the unknown metric type raises \<open>ValueError\<close>.\<close>

definition robustness :: "pyfloat \<Rightarrow> pyfloat \<Rightarrow> string \<Rightarrow> error + pyfloat" where
  "robustness metric_baseline metric_degraded metric_type =
     (if metric_type \<in> set [''throughput'', ''fidelity'', ''fairness''] then
        (if fle metric_baseline (Fin 0) then Inr (Fin 0)
         else py_div metric_degraded metric_baseline)
      else if metric_type = ''latency'' then
        (if fle metric_degraded (Fin 0) then Inr PInf
         else py_div metric_baseline metric_degraded)
      else Inl (ValueError (''Unknown metric_type: '' @ metric_type @
             ''. Must be 'throughput', 'fidelity', 'fairness', or 'latency'' @ [CHR 0x27])))"

section \<open>Data model\<close>

text \<open>
  A density matrix is a list of rows. \<open>np_mean_axis0 d rest\<close> is
  \<open>np.mean(ds, axis=0)\<close> for the non-empty list \<open>ds = d # rest\<close>: the element-wise
  mean when all matrices have one shape, numpy's error otherwise.
\<close>

type_synonym dm = "complex list list"

definition dm_add :: "dm \<Rightarrow> dm \<Rightarrow> dm" where
  "dm_add a b = map2 (map2 (+)) a b"

definition np_mean_axis0 :: "dm \<Rightarrow> dm list \<Rightarrow> error + dm" where
  "np_mean_axis0 d rest =
     (if list_all (\<lambda>e. map length e = map length d) rest
      then Inr (map (map (\<lambda>z. z / of_nat (Suc (length rest)))) (foldl dm_add d rest))
      else Inl ShapeError)"

text \<open>
  The request dictionary. A key that can be missing, or hold \<open>None\<close>, is an option:
  \<open>completion_time\<close> is \<open>None\<close> until the quota is met, \<open>delivered_states\<close> is deleted
  at finalization, \<open>delivered_state\<close> is set at finalization if states were stored.
\<close>

record request =
  request_id :: int
  num_units :: int
  node_id :: string
  request_time :: real
  completion_time :: "real option"
  delivered_states :: "dm list option"
  completed_units :: int
  delivered_state :: "dm option"

text \<open>
  What \<open>record_delivery\<close> observes of its \<open>qubits\<close> argument (a list of NetSquid
  qubits): its length, the four calls \<open>qapi.fidelity(qubits, ketstates.bXY, squared=True)\<close>
  and \<open>qubits[0].qstate.dm\<close>. \<open>None\<close> is a call that raises.
\<close>

record qubits =
  q_len :: nat
  fid_b00 :: "real option"
  fid_b01 :: "real option"
  fid_b10 :: "real option"
  fid_b11 :: "real option"
  q_dm :: "dm option"

record collector =
  requests :: "request list"
  start_time :: real
  end_time :: real
  fidelity_threshold :: real
  active_requests :: "int \<rightharpoonup> request"
  rejected_states :: int
  fidelity_values :: "real list"

section \<open>Metric aggregator: \<open>aggregate_metrics.py\<close>\<close>

text \<open>The values of a result dictionary: floats, integers and nested dictionaries.\<close>

datatype pyvalue = VFloat pyfloat | VInt int | VDict "string \<Rightarrow> pyvalue option"

type_synonym pydict = "string \<rightharpoonup> pyvalue"

text \<open>The entry of \<open>per_node_data\<close> for one node.\<close>

record node_data =
  units :: int
  latencies :: "real list"
  fidelities :: "real list"
  first_request_time :: pyfloat
  last_completion_time :: real

text \<open>
  The variables of the loop over the requests. \<open>per_node_data\<close> is a dictionary that
  the second loop iterates in insertion order: an association list.
\<close>

record loop_vars =
  v_latencies :: "real list"
  v_unit_latencies :: "pyfloat list"
  v_scaled_latencies :: "pyfloat list"
  v_per_node_data :: "(string \<times> node_data) list"
  v_fidelities :: "real list"
  v_total_units :: int
  v_fid_idx :: nat

definition init_loop_vars :: loop_vars where
  "init_loop_vars =
     \<lparr>v_latencies = [], v_unit_latencies = [], v_scaled_latencies = [],
      v_per_node_data = [], v_fidelities = [], v_total_units = 0, v_fid_idx = 0\<rparr>"

text \<open>The inner loop \<open>for i in range(num_states)\<close>.\<close>

fun take_fidelities :: "nat \<Rightarrow> real list \<Rightarrow> string \<Rightarrow> loop_vars \<Rightarrow> loop_vars" where
  "take_fidelities 0 fv nid v = v"
| "take_fidelities (Suc k) fv nid v =
     take_fidelities k fv nid
       (if v_fid_idx v < length fv then
          v\<lparr>v_fidelities := v_fidelities v @ [fv ! v_fid_idx v],
            v_per_node_data :=
              AList.map_entry nid (\<lambda>d. d\<lparr>fidelities := fidelities d @ [fv ! v_fid_idx v]\<rparr>)
                (v_per_node_data v),
            v_fid_idx := v_fid_idx v + 1\<rparr>
        else v)"

text \<open>
  The body of \<open>for req in requests\<close>. A request whose \<open>completion_time\<close> is \<open>None\<close>
  makes the subtraction raise \<open>TypeError\<close>. The keys \<open>num_units\<close> and \<open>node_id\<close> are
  always present in a request of the ledger, so the defaults of \<open>req.get\<close> are not used.
  \<open>num_states\<close> is \<open>len\<close> of the averaged density matrix: its number of rows.
\<close>

definition request_step :: "real list option \<Rightarrow> request \<Rightarrow> loop_vars \<Rightarrow> error + loop_vars" where
  "request_step fidelity_values_arg req v =
     (case completion_time req of
        None \<Rightarrow> Inl TypeError
      | Some ct \<Rightarrow>
          (let req_latency = request_latency ct (request_time req);
               n = num_units req;
               nid = node_id req;
               pnd0 = (if map_of (v_per_node_data v) nid = None
                       then v_per_node_data v @
                            [(nid, \<lparr>units = 0, latencies = [], fidelities = [],
                                    first_request_time = PInf, last_completion_time = 0\<rparr>)]
                       else v_per_node_data v);
               pnd1 = AList.map_entry nid
                        (\<lambda>d. d\<lparr>units := units d + n,
                                latencies := latencies d @ [req_latency],
                                first_request_time :=
                                  py_min (first_request_time d) (Fin (request_time req)),
                                last_completion_time := max (last_completion_time d) ct\<rparr>)
                        pnd0;
               v1 = v\<lparr>v_latencies := v_latencies v @ [req_latency],
                      v_unit_latencies := v_unit_latencies v @ [unit_latency req_latency n],
                      v_scaled_latencies := v_scaled_latencies v @ [scaled_latency req_latency n],
                      v_per_node_data := pnd1,
                      v_total_units := v_total_units v + n\<rparr>
           in Inr (case fidelity_values_arg of
                     None \<Rightarrow> v1
                   | Some fv \<Rightarrow>
                       (if fv \<noteq> [] then
                          (case delivered_state req of
                             None \<Rightarrow> v1
                           | Some m \<Rightarrow> take_fidelities (length m) fv nid v1)
                        else v1))))"

fun requests_loop :: "real list option \<Rightarrow> request list \<Rightarrow> loop_vars \<Rightarrow> error + loop_vars" where
  "requests_loop fva [] v = Inr v"
| "requests_loop fva (req # reqs) v =
     (case request_step fva req v of
        Inl e \<Rightarrow> Inl e
      | Inr v1 \<Rightarrow> requests_loop fva reqs v1)"

text \<open>The variables of the loop over \<open>per_node_data.items()\<close>; \<open>w_node_id\<close> is the
  variable \<open>node_id\<close>, \<open>None\<close> before the loop.\<close>

record node_vars =
  w_per_node_throughputs :: "pyfloat list"
  w_per_node_latencies :: "real list"
  w_per_node_fidelities :: "real list"
  w_per_node_metrics :: "string \<rightharpoonup> pydict"
  w_node_id :: "string option"

definition init_node_vars :: node_vars where
  "init_node_vars =
     \<lparr>w_per_node_throughputs = [], w_per_node_latencies = [], w_per_node_fidelities = [],
      w_per_node_metrics = Map.empty, w_node_id = None\<rparr>"

text \<open>The active window of a node and its throughput in states per second; the
  division is guarded by \<open>node_active_time > 0\<close>.\<close>

definition node_active_time_of :: "node_data \<Rightarrow> pyfloat" where
  "node_active_time_of data = fsub (Fin (last_completion_time data)) (first_request_time data)"

definition node_throughput_of :: "node_data \<Rightarrow> pyfloat" where
  "node_throughput_of data =
     (if flt (Fin 0) (node_active_time_of data)
      then fmul (fdiv (Fin (real_of_int (units data))) (node_active_time_of data))
                (Fin 1000000000)
      else Fin 0)"

text \<open>The body of the second loop in \<open>aggregate_metrics.py\<close>: the entry of a node holds
  \<open>throughput\<close> and \<open>total_units\<close>, and \<open>avg_fidelity\<close> when the node has samples.\<close>

definition node_step :: "node_vars \<Rightarrow> string \<times> node_data \<Rightarrow> node_vars" where
  "node_step w p =
     (let nid = fst p; data = snd p;
          node_throughput = node_throughput_of data;
          node_avg_latency = np_mean (latencies data);
          entry = [''throughput'' \<mapsto> VFloat node_throughput,
                   ''total_units'' \<mapsto> VInt (units data)];
          w1 = w\<lparr>w_per_node_throughputs := w_per_node_throughputs w @ [node_throughput],
                 w_per_node_latencies := w_per_node_latencies w @ [node_avg_latency],
                 w_per_node_metrics := (w_per_node_metrics w)(nid \<mapsto> entry),
                 w_node_id := Some nid\<rparr>
      in if fidelities data \<noteq> [] then
           w1\<lparr>w_per_node_fidelities := w_per_node_fidelities w1 @ [np_mean (fidelities data)],
               w_per_node_metrics := (w_per_node_metrics w1)(nid \<mapsto>
                  entry(''avg_fidelity'' \<mapsto> VFloat (Fin (np_mean (fidelities data)))))\<rparr>
         else w1)"

text \<open>
  \<open>aggregate_metrics\<close> of \<open>aggregate_metrics.py\<close>, the one that \<open>MetricsCollector\<close>
  imports. The result is built from the three means, \<open>rejected_states\<close> and the entry
  \<open>per_node_metrics[node_id]\<close> of the node that the loop visited last.
\<close>

definition aggregate_metrics ::
  "request list \<Rightarrow> real \<Rightarrow> real list option \<Rightarrow> int \<Rightarrow> error + pydict" where
  "aggregate_metrics reqs simulation_time fidelity_values_arg rejected =
     (if reqs = [] then
        Inr [''throughput'' \<mapsto> VFloat (Fin 0),
             ''mean_request_latency'' \<mapsto> VFloat (Fin 0),
             ''mean_unit_latency'' \<mapsto> VFloat (Fin 0),
             ''mean_scaled_latency'' \<mapsto> VFloat (Fin 0),
             ''fairness_throughput'' \<mapsto> VFloat (Fin 1),
             ''fairness_latency'' \<mapsto> VFloat (Fin 1)]
      else
        (case requests_loop fidelity_values_arg reqs init_loop_vars of
           Inl e \<Rightarrow> Inl e
         | Inr v \<Rightarrow>
             (let w = foldl node_step init_node_vars (v_per_node_data v)
              in (case (case w_node_id w of
                          None \<Rightarrow> None
                        | Some nid \<Rightarrow> w_per_node_metrics w nid) of
                    None \<Rightarrow> Inl KeyError
                  | Some last_entry \<Rightarrow>
                      (let metrics =
                             [''mean_request_latency'' \<mapsto> VFloat (Fin (np_mean (v_latencies v))),
                              ''mean_unit_latency'' \<mapsto> VFloat (np_mean_f (v_unit_latencies v)),
                              ''mean_scaled_latency'' \<mapsto> VFloat (np_mean_f (v_scaled_latencies v)),
                              ''rejected_states'' \<mapsto> VInt rejected] ++ last_entry
                       in Inr (if v_fidelities v \<noteq> []
                               then metrics(''mean_fidelity'' \<mapsto>
                                      VFloat (Fin (np_mean (v_fidelities v))))
                               else metrics))))))"

section \<open>The aggregator of \<open>metrics.py\<close>\<close>

text \<open>The body of the second loop in \<open>metrics.py\<close>: the entry of a node also holds
  \<open>avg_latency\<close> and \<open>active_time\<close>. The first loop is the same, line for line.\<close>

definition metrics_node_step :: "node_vars \<Rightarrow> string \<times> node_data \<Rightarrow> node_vars" where
  "metrics_node_step w p =
     (let nid = fst p; data = snd p;
          node_throughput = node_throughput_of data;
          node_avg_latency = np_mean (latencies data);
          entry = [''throughput'' \<mapsto> VFloat node_throughput,
                   ''avg_latency'' \<mapsto> VFloat (Fin node_avg_latency),
                   ''total_units'' \<mapsto> VInt (units data),
                   ''active_time'' \<mapsto> VFloat (node_active_time_of data)];
          w1 = w\<lparr>w_per_node_throughputs := w_per_node_throughputs w @ [node_throughput],
                 w_per_node_latencies := w_per_node_latencies w @ [node_avg_latency],
                 w_per_node_metrics := (w_per_node_metrics w)(nid \<mapsto> entry),
                 w_node_id := Some nid\<rparr>
      in if fidelities data \<noteq> [] then
           w1\<lparr>w_per_node_fidelities := w_per_node_fidelities w1 @ [np_mean (fidelities data)],
               w_per_node_metrics := (w_per_node_metrics w1)(nid \<mapsto>
                  entry(''avg_fidelity'' \<mapsto> VFloat (Fin (np_mean (fidelities data)))))\<rparr>
         else w1)"

definition metrics_aggregate_metrics ::
  "request list \<Rightarrow> real \<Rightarrow> real list option \<Rightarrow> int \<Rightarrow> error + pydict" where
  "metrics_aggregate_metrics reqs simulation_time fidelity_values_arg rejected =
     (if reqs = [] then
        Inr [''throughput'' \<mapsto> VFloat (Fin 0),
             ''mean_request_latency'' \<mapsto> VFloat (Fin 0),
             ''mean_unit_latency'' \<mapsto> VFloat (Fin 0),
             ''mean_scaled_latency'' \<mapsto> VFloat (Fin 0),
             ''fairness_throughput'' \<mapsto> VFloat (Fin 1),
             ''fairness_latency'' \<mapsto> VFloat (Fin 1)]
      else
        (case requests_loop fidelity_values_arg reqs init_loop_vars of
           Inl e \<Rightarrow> Inl e
         | Inr v \<Rightarrow>
             (let w = foldl metrics_node_step init_node_vars (v_per_node_data v);
                  metrics =
                    [''throughput'' \<mapsto> VFloat (Fin (throughput (v_total_units v) simulation_time)),
                     ''mean_request_latency'' \<mapsto> VFloat (Fin (np_mean (v_latencies v))),
                     ''mean_unit_latency'' \<mapsto> VFloat (np_mean_f (v_unit_latencies v)),
                     ''mean_scaled_latency'' \<mapsto> VFloat (np_mean_f (v_scaled_latencies v)),
                     ''fairness_throughput'' \<mapsto> VFloat (fairness (w_per_node_throughputs w)),
                     ''fairness_latency'' \<mapsto>
                        VFloat (fairness (map Fin (w_per_node_latencies w))),
                     ''per_node_metrics'' \<mapsto>
                        VDict (\<lambda>nid. map_option VDict (w_per_node_metrics w nid)),
                     ''rejected_states'' \<mapsto> VInt rejected]
              in Inr (if v_fidelities v \<noteq> [] then
                        (let m1 = metrics(''mean_fidelity'' \<mapsto>
                                    VFloat (Fin (np_mean (v_fidelities v))))
                         in if w_per_node_fidelities w \<noteq> []
                            then m1(''fairness_fidelity'' \<mapsto>
                                   VFloat (fairness (map Fin (w_per_node_fidelities w))))
                            else m1)
                      else metrics))))"

section \<open>Request ledger: \<open>metrics_collector.py\<close>\<close>

text \<open>\<open>MetricsCollector.__init__\<close>.\<close>

definition init_collector :: "real \<Rightarrow> collector" where
  "init_collector thr =
     \<lparr>requests = [], start_time = 0, end_time = 0, fidelity_threshold = thr,
      active_requests = Map.empty, rejected_states = 0, fidelity_values = []\<rparr>"

text \<open>The simulation clock \<open>ns.sim_time()\<close> is the argument \<open>now\<close> of every operation
  that reads it.\<close>

definition start_simulation :: "real \<Rightarrow> collector \<Rightarrow> collector" where
  "start_simulation now s = s\<lparr>start_time := now\<rparr>"

definition end_simulation :: "real \<Rightarrow> collector \<Rightarrow> collector" where
  "end_simulation now s = s\<lparr>end_time := now\<rparr>"

text \<open>\<open>record_request\<close> stores a fresh dictionary under the id, whatever was there;
  it has no \<open>raise\<close>.\<close>

definition record_request ::
  "real \<Rightarrow> int \<Rightarrow> int \<Rightarrow> string \<Rightarrow> collector \<Rightarrow> error + collector" where
  "record_request now rid n nid s =
     Inr (s\<lparr>active_requests := (active_requests s)(rid \<mapsto>
        \<lparr>request_id = rid, num_units = n, node_id = nid, request_time = now,
         completion_time = None, delivered_states = Some [], completed_units = 0,
         delivered_state = None\<rparr>)\<rparr>)"

text \<open>The request dictionary is shared with \<open>_active_requests\<close>: a write to it is a
  write to the entry of the map.\<close>

definition set_req :: "int \<Rightarrow> request \<Rightarrow> collector \<Rightarrow> collector" where
  "set_req rid req s = s\<lparr>active_requests := (active_requests s)(rid \<mapsto> req)\<rparr>"

text \<open>\<open>_finalize_request\<close>.\<close>

definition finalize_request :: "int \<Rightarrow> collector \<Rightarrow> error + collector" where
  "finalize_request rid s =
     (case active_requests s rid of
        None \<Rightarrow> Inr s
      | Some req \<Rightarrow>
          (case delivered_states req of
             None \<Rightarrow> Inl KeyError
           | Some dl \<Rightarrow>
               (case (case dl of
                        [] \<Rightarrow> Inr req
                      | d # rest \<Rightarrow>
                          (case np_mean_axis0 d rest of
                             Inl e \<Rightarrow> Inl e
                           | Inr m \<Rightarrow> Inr (req\<lparr>delivered_state := Some m\<rparr>))) of
                  Inl e \<Rightarrow> Inl e
                | Inr req1 \<Rightarrow>
                    Inr (s\<lparr>requests := requests s @ [req1\<lparr>delivered_states := None\<rparr>],
                           active_requests := (active_requests s)(rid := None)\<rparr>))))"

text \<open>
  The \<open>try\<close> block of \<open>record_delivery\<close>. \<open>Return\<close> is the early \<open>return\<close> of the
  threshold rejection; \<open>Continue\<close> goes on to the completion check, also from the
  \<open>except\<close> clause, which keeps what was written before the exception.
\<close>

datatype flow = Return collector | Continue request collector

definition try_block :: "int \<Rightarrow> request \<Rightarrow> qubits \<Rightarrow> collector \<Rightarrow> flow" where
  "try_block rid req qs s =
     (case fid_b00 qs of None \<Rightarrow> Continue req s | Some fid_phi_plus \<Rightarrow>
     (case fid_b01 qs of None \<Rightarrow> Continue req s | Some fid_psi_plus \<Rightarrow>
     (case fid_b10 qs of None \<Rightarrow> Continue req s | Some fid_phi_minus \<Rightarrow>
     (case fid_b11 qs of None \<Rightarrow> Continue req s | Some fid_psi_minus \<Rightarrow>
        (let max_fid = max (max (max fid_phi_plus fid_psi_plus) fid_phi_minus) fid_psi_minus
         in if 0 < fidelity_threshold s \<and> max_fid < fidelity_threshold s then
              Return (set_req rid (req\<lparr>completed_units := completed_units req - 1\<rparr>)
                        (s\<lparr>rejected_states := rejected_states s + 1\<rparr>))
            else
              (let s' = s\<lparr>fidelity_values := fidelity_values s @ [max_fid]\<rparr>
               in (case q_dm qs of None \<Rightarrow> Continue req s' | Some m \<Rightarrow>
                  (case delivered_states req of None \<Rightarrow> Continue req s' | Some dl \<Rightarrow>
                     (let req' = req\<lparr>delivered_states := Some (dl @ [m])\<rparr>
                      in Continue req' (set_req rid req' s'))))))))))"

definition check_complete :: "real \<Rightarrow> int \<Rightarrow> request \<Rightarrow> collector \<Rightarrow> error + collector" where
  "check_complete now rid req s =
     (if num_units req \<le> completed_units req
      then finalize_request rid (set_req rid (req\<lparr>completion_time := Some now\<rparr>) s)
      else Inr s)"

definition record_delivery ::
  "real \<Rightarrow> int \<Rightarrow> int \<Rightarrow> qubits option \<Rightarrow> collector \<Rightarrow> error + collector" where
  "record_delivery now rid qubit_id qubits_arg s =
     (case active_requests s rid of
        None \<Rightarrow> Inr s
      | Some req0 \<Rightarrow>
          let req = req0\<lparr>completed_units := completed_units req0 + 1\<rparr>;
              s1 = set_req rid req s
          in (case qubits_arg of
                None \<Rightarrow> check_complete now rid req s1
              | Some qs \<Rightarrow>
                  (if 0 < q_len qs then
                     (case try_block rid req qs s1 of
                        Return s2 \<Rightarrow> Inr s2
                      | Continue req2 s2 \<Rightarrow> check_complete now rid req2 s2)
                   else check_complete now rid req s1)))"

text \<open>\<open>calculate_metrics\<close> reads the clock when \<open>end_time\<close> is still 0, and returns the
  snapshot with the collector it has updated.\<close>

definition calculate_metrics :: "real \<Rightarrow> collector \<Rightarrow> error + (pydict \<times> collector)" where
  "calculate_metrics now s =
     (let s1 = (if end_time s = 0 then end_simulation now s else s);
          simulation_time = end_time s1 - start_time s1
      in (case aggregate_metrics (requests s1) simulation_time
                 (Some (fidelity_values s1)) (rejected_states s1) of
            Inl e \<Rightarrow> Inl e
          | Inr metrics \<Rightarrow>
              Inr (metrics(''simulation_time'' \<mapsto> VFloat (Fin simulation_time),
                           ''start_time'' \<mapsto> VFloat (Fin (start_time s1)),
                           ''end_time'' \<mapsto> VFloat (Fin (end_time s1)),
                           ''total_requests'' \<mapsto> VInt (int (length (requests s1)))),
                   s1)))"

section \<open>Runs of the ledger\<close>

text \<open>Sequencing of calls: the first exception ends the run.\<close>

definition and_then :: "error + 'a \<Rightarrow> ('a \<Rightarrow> error + 'b) \<Rightarrow> error + 'b" where
  "and_then r f = (case r of Inl e \<Rightarrow> Inl e | Inr x \<Rightarrow> f x)"

text \<open>A delivery event: the clock at the call, and the arguments \<open>qubit_id\<close> and
  \<open>qubits\<close> of \<open>record_delivery\<close>.\<close>

record delivery =
  d_time :: real
  d_qubit_id :: int
  d_qubits :: "qubits option"

fun deliver_all :: "int \<Rightarrow> delivery list \<Rightarrow> collector \<Rightarrow> error + collector" where
  "deliver_all rid [] s = Inr s"
| "deliver_all rid (d # ds) s =
     and_then (record_delivery (d_time d) rid (d_qubit_id d) (d_qubits d) s) (deliver_all rid ds)"

text \<open>
  The fidelity score of a delivery: the maximum of the four fidelities, when the
  argument is a non-empty list and no fidelity call raises.
\<close>

definition best_fidelity :: "qubits option \<Rightarrow> real option" where
  "best_fidelity qa =
     (case qa of
        None \<Rightarrow> None
      | Some qs \<Rightarrow>
          (if 0 < q_len qs then
             (case (fid_b00 qs, fid_b01 qs, fid_b10 qs, fid_b11 qs) of
                (Some f1, Some f2, Some f3, Some f4) \<Rightarrow> Some (max (max (max f1 f2) f3) f4)
              | _ \<Rightarrow> None)
           else None))"


text \<open>A delivery is rejected when a threshold is configured (it is positive) and the
  score is below it; every other delivery is accepted, that is, counted.\<close>

definition rejected :: "real \<Rightarrow> qubits option \<Rightarrow> bool" where
  "rejected thr qa =
     (case best_fidelity qa of None \<Rightarrow> False | Some f \<Rightarrow> 0 < thr \<and> f < thr)"

definition accepted :: "real \<Rightarrow> delivery \<Rightarrow> bool" where
  "accepted thr d = (\<not> rejected thr (d_qubits d))"

text \<open>The density matrices that an accepted delivery stores (none or one).\<close>

definition stored_dms :: "delivery \<Rightarrow> dm list" where
  "stored_dms d =
     (case best_fidelity (d_qubits d) of
        None \<Rightarrow> []
      | Some f \<Rightarrow>
          (case d_qubits d of
             None \<Rightarrow> []
           | Some qs \<Rightarrow> (case q_dm qs of None \<Rightarrow> [] | Some m \<Rightarrow> [m])))"

text \<open>The fidelity samples that an accepted delivery records (none or one).\<close>

definition samples :: "delivery \<Rightarrow> real list" where
  "samples d = (case best_fidelity (d_qubits d) of None \<Rightarrow> [] | Some f \<Rightarrow> [f])"

text \<open>Every stored density matrix has the row lengths \<open>shp\<close>.\<close>

definition one_shape :: "nat list \<Rightarrow> delivery list \<Rightarrow> bool" where
  "one_shape shp ds = list_all (\<lambda>m. map length m = shp) (concat (map stored_dms ds))"

text \<open>The \<open>delivered_state\<close> of a request at finalization, after the density
  matrices \<open>dl\<close> of one shape were stored: the key stays as it was when \<open>dl\<close> is empty.\<close>

definition mean_state :: "request \<Rightarrow> dm list \<Rightarrow> dm option" where
  "mean_state req dl =
     (case dl of
        [] \<Rightarrow> delivered_state req
      | d # rest \<Rightarrow>
          Some (map (map (\<lambda>z. z / of_nat (Suc (length rest)))) (foldl dm_add d rest)))"

section \<open>Example inputs\<close>

text \<open>
  A pair of qubits in the Werner state of fidelity \<open>f\<close> to the Bell state \<open>b00\<close>: its
  fidelity to each other Bell state is \<open>(1 - f) / 3\<close>, its density matrix is 4 by 4.
\<close>

definition werner_dm :: "real \<Rightarrow> dm" where
  "werner_dm f =
     [[complex_of_real ((1 + 2 * f) / 6), 0, 0, complex_of_real ((4 * f - 1) / 6)],
      [0, complex_of_real ((1 - f) / 3), 0, 0],
      [0, 0, complex_of_real ((1 - f) / 3), 0],
      [complex_of_real ((4 * f - 1) / 6), 0, 0, complex_of_real ((1 + 2 * f) / 6)]]"

definition werner :: "real \<Rightarrow> qubits" where
  "werner f =
     \<lparr>q_len = 2, fid_b00 = Some f, fid_b01 = Some ((1 - f) / 3),
      fid_b10 = Some ((1 - f) / 3), fid_b11 = Some ((1 - f) / 3),
      q_dm = Some (werner_dm f)\<rparr>"

text \<open>A pair of qubits on which \<open>qapi.fidelity\<close> raises.\<close>

definition broken :: qubits where
  "broken = \<lparr>q_len = 2, fid_b00 = None, fid_b01 = None, fid_b10 = None, fid_b11 = None,
             q_dm = None\<rparr>"

definition delivery_at :: "real \<Rightarrow> qubits option \<Rightarrow> delivery" where
  "delivery_at t qa = \<lparr>d_time = t, d_qubit_id = 0, d_qubits = qa\<rparr>"

text \<open>A run: the request 1 of node A, registered at time 0, then the deliveries.\<close>

definition run_from :: "real \<Rightarrow> int \<Rightarrow> delivery list \<Rightarrow> error + collector" where
  "run_from thr n ds =
     and_then (record_request 0 1 n ''A'' (init_collector thr)) (deliver_all 1 ds)"

text \<open>The request 1 of node A, active with quota \<open>n\<close>, \<open>c\<close> units counted and no state
  stored; and the collector that holds only this request.\<close>

definition req_A :: "int \<Rightarrow> int \<Rightarrow> request" where
  "req_A n c =
     \<lparr>request_id = 1, num_units = n, node_id = ''A'', request_time = 0,
      completion_time = None, delivered_states = Some [], completed_units = c,
      delivered_state = None\<rparr>"

definition one_active :: "real \<Rightarrow> int \<Rightarrow> int \<Rightarrow> collector" where
  "one_active thr n c = (init_collector thr)\<lparr>active_requests := [1 \<mapsto> req_A n c]\<rparr>"

text \<open>The request 1 of node A, completed at time \<open>t\<close> with \<open>n\<close> units.\<close>

definition done_A :: "int \<Rightarrow> real \<Rightarrow> dm option \<Rightarrow> request" where
  "done_A n t st =
     \<lparr>request_id = 1, num_units = n, node_id = ''A'', request_time = 0,
      completion_time = Some t, delivered_states = None, completed_units = n,
      delivered_state = st\<rparr>"

text \<open>Two deliveries without a state complete a request of two units.\<close>

definition two_units_run :: "delivery list" where
  "two_units_run = [delivery_at 500 None, delivery_at 1000 None]"

definition two_units_done :: collector where
  "two_units_done = (init_collector 0)\<lparr>requests := [done_A 2 1000 None]\<rparr>"

text \<open>Five deliveries of Werner pairs, four of fidelity 1 and one of fidelity 1/2,
  complete a request of five units.\<close>

definition five_units_run :: "delivery list" where
  "five_units_run =
     [delivery_at 100 (Some (werner 1)), delivery_at 200 (Some (werner 1)),
      delivery_at 300 (Some (werner 1)), delivery_at 400 (Some (werner 1)),
      delivery_at 500 (Some (werner (1 / 2)))]"

definition five_units_state :: dm where
  "five_units_state =
     [[7 / 15, 0, 0, 13 / 30], [0, 1 / 30, 0, 0], [0, 0, 1 / 30, 0], [13 / 30, 0, 0, 7 / 15]]"

definition five_units_done :: collector where
  "five_units_done =
     (init_collector 0)\<lparr>requests := [done_A 5 500 (Some five_units_state)],
                         fidelity_values := [1, 1, 1, 1, 1 / 2]\<rparr>"

text \<open>
  A pair of qubits that share their state with a third qubit, all three maximally mixed:
  the fidelity of the pair to each Bell state is 1/4, and \<open>qubits[0].qstate.dm\<close> is the
  8 by 8 matrix of the whole state. After a Werner pair it completes a request of two
  units with stored matrices of two shapes.
\<close>

definition mixed3_dm :: dm where
  "mixed3_dm =
     map (\<lambda>i. replicate i 0 @ [1 / 8] @ replicate (7 - i) 0) [0, 1, 2, 3, 4, 5, 6, 7]"

definition pair_of_three :: qubits where
  "pair_of_three =
     \<lparr>q_len = 2, fid_b00 = Some (1 / 4), fid_b01 = Some (1 / 4), fid_b10 = Some (1 / 4),
      fid_b11 = Some (1 / 4), q_dm = Some mixed3_dm\<rparr>"

definition mixed_run :: "delivery list" where
  "mixed_run = [delivery_at 100 (Some (werner 1)), delivery_at 200 (Some pair_of_three)]"

text \<open>Reading one key of a returned dictionary.\<close>

definition lookup_key :: "string \<Rightarrow> error + pydict \<Rightarrow> pyvalue option" where
  "lookup_key k r = (case r of Inl e \<Rightarrow> None | Inr m \<Rightarrow> m k)"

section \<open>Properties of the formula library\<close>

text \<open>
  Claim C10 fails on the code. For two copies of 0.0 the sum and the sum of squares are
  zero, numpy divides zero by zero, and \<open>fairness\<close> returns NaN, not 1.0; the docstring
  promises a value in [0,1]. Every operation on these zeros is exact in float64.
\<close>

theorem fairness_of_zeros_is_nan: "fairness [Fin 0, Fin 0] = NaN"
  by (simp add: fairness_def fsum_def)

text \<open>
  Claim C9: for a higher-is-better metric type \<open>robustness\<close> returns degraded / baseline,
  and 0.0 when the baseline is not positive; for \<open>latency\<close> it returns
  baseline / degraded, and plus infinity when the degraded value is not positive; in
  both cases no exception is raised (the guarded division never has a zero divisor). Every
  other metric type raises the \<open>ValueError\<close> that names it.
\<close>

theorem robustness_by_polarity:
  "(t \<in> {''throughput'', ''fidelity'', ''fairness''} \<longrightarrow>
      robustness b d t = Inr (if fle b (Fin 0) then Fin 0 else fdiv d b))
   \<and> (t = ''latency'' \<longrightarrow>
      robustness b d t = Inr (if fle d (Fin 0) then PInf else fdiv b d))
   \<and> (t \<notin> {''throughput'', ''fidelity'', ''fairness'', ''latency''} \<longrightarrow>
      robustness b d t =
        Inl (ValueError (''Unknown metric_type: '' @ t @
               ''. Must be 'throughput', 'fidelity', 'fairness', or 'latency'' @ [CHR 0x27])))"
  by (auto simp: robustness_def py_div_def)

theorem robustness_by_polarity_witness:
  "robustness (Fin 100) (Fin 80) ''throughput'' = Inr (Fin (4 / 5))
   \<and> robustness (Fin 0) (Fin 80) ''fairness'' = Inr (Fin 0)
   \<and> robustness (Fin 10) (Fin 15) ''latency'' = Inr (Fin (2 / 3))
   \<and> robustness (Fin 10) (Fin 0) ''latency'' = Inr PInf
   \<and> robustness (Fin 10) (Fin 15) ''jitter'' =
       Inl (ValueError (''Unknown metric_type: jitter'' @
              ''. Must be 'throughput', 'fidelity', 'fairness', or 'latency'' @ [CHR 0x27]))"
  using robustness_by_polarity [of "''throughput''" "Fin 100" "Fin 80"]
    robustness_by_polarity [of "''fairness''" "Fin 0" "Fin 80"]
    robustness_by_polarity [of "''latency''" "Fin 10" "Fin 15"]
    robustness_by_polarity [of "''latency''" "Fin 10" "Fin 0"]
    robustness_by_polarity [of "''jitter''" "Fin 10" "Fin 15"]
  by simp

section \<open>Properties of the ledger\<close>

lemma register_A: "record_request 0 1 n ''A'' (init_collector thr) = Inr (one_active thr n 0)"
  by (simp add: record_request_def one_active_def req_A_def init_collector_def)

lemma one_active_entry: "active_requests (one_active thr n c) 1 = Some (req_A n c)"
  by (simp add: one_active_def)

lemma upd_swap:
  "s\<lparr>active_requests := a, fidelity_values := f\<rparr> =
   s\<lparr>fidelity_values := f, active_requests := a\<rparr>"
  by simp



lemma check_complete_open:
  "completed_units req < num_units req \<Longrightarrow> check_complete now rid req s = Inr s"
  by (simp add: check_complete_def)

lemma check_complete_closed:
  assumes "num_units req \<le> completed_units req"
    and "delivered_states req = Some dl"
    and "list_all (\<lambda>m. map length m = shp) dl"
  shows "check_complete now rid req s =
     Inr (s\<lparr>requests := requests s @
              [req\<lparr>completion_time := Some now, delivered_states := None,
                    delivered_state := mean_state req dl\<rparr>],
            active_requests := (active_requests s)(rid := None)\<rparr>)"
proof (cases dl)
  case Nil
  then show ?thesis using assms
    by (simp add: check_complete_def finalize_request_def set_req_def mean_state_def)
next
  case (Cons d rest)
  with assms(3) have "list_all (\<lambda>e. map length e = map length d) rest"
    by (simp add: list_all_iff)
  then show ?thesis using assms Cons
    by (simp add: check_complete_def finalize_request_def set_req_def mean_state_def np_mean_axis0_def)
qed


text \<open>
  Claim C7: a delivery for a request id that is not active changes no field of the
  collector and raises no error.
\<close>

theorem delivery_to_unknown_request_is_noop:
  "active_requests s rid = None \<Longrightarrow> record_delivery now rid q qa s = Inr s"
  by (simp add: record_delivery_def)

theorem delivery_to_unknown_request_is_noop_witness:
  "active_requests two_units_done 1 = None
   \<and> record_delivery 1500 1 0 (Some (werner 1)) two_units_done = Inr two_units_done"
proof -
  have h: "active_requests two_units_done 1 = None"
    by (simp add: two_units_done_def init_collector_def)
  from h delivery_to_unknown_request_is_noop [OF h] show ?thesis by simp
qed

text \<open>
  Claim C3: when a threshold is configured (it is positive) and the best fidelity of a
  delivery to an active request is below it, \<open>record_delivery\<close> adds 1 to
  \<open>rejected_states\<close> and changes nothing else: the request stays active with the same
  \<open>completed_units\<close>, no fidelity sample is recorded, nothing is finalized.
\<close>

theorem delivery_below_threshold_is_rejected:
  assumes act: "active_requests s rid = Some req"
    and bf: "best_fidelity qa = Some f"
    and thr: "0 < fidelity_threshold s" and low: "f < fidelity_threshold s"
  shows "record_delivery now rid q qa s = Inr (s\<lparr>rejected_states := rejected_states s + 1\<rparr>)
         \<and> active_requests (s\<lparr>rejected_states := rejected_states s + 1\<rparr>) rid = Some req
         \<and> fidelity_values (s\<lparr>rejected_states := rejected_states s + 1\<rparr>) = fidelity_values s
         \<and> requests (s\<lparr>rejected_states := rejected_states s + 1\<rparr>) = requests s"
proof -
  from bf obtain qs where qa: "qa = Some qs" and len: "0 < q_len qs"
    by (auto simp: best_fidelity_def split: option.splits if_splits)
  from bf qa len obtain f1 f2 f3 f4 where
    fs: "fid_b00 qs = Some f1" "fid_b01 qs = Some f2" "fid_b10 qs = Some f3" "fid_b11 qs = Some f4"
    and f: "f = max (max (max f1 f2) f3) f4"
    by (auto simp: best_fidelity_def split: option.splits if_splits)
  have "(active_requests s)(rid \<mapsto> req) = active_requests s"
    using act by (simp add: fun_upd_idem)
  then have "record_delivery now rid q qa s = Inr (s\<lparr>rejected_states := rejected_states s + 1\<rparr>)"
    using act qa len fs f thr low
    by (simp add: record_delivery_def try_block_def set_req_def Let_def)
  then show ?thesis using act by simp
qed

theorem delivery_below_threshold_is_rejected_witness:
  "record_delivery 10 1 0 (Some (werner (3 / 10))) (one_active (1 / 2) 3 1) =
     Inr ((one_active (1 / 2) 3 1)\<lparr>rejected_states := 1\<rparr>)"
proof -
  have h1: "active_requests (one_active (1 / 2) 3 1) 1 = Some (req_A 3 1)"
    by (rule one_active_entry)
  have h2: "best_fidelity (Some (werner (3 / 10))) = Some (3 / 10)"
    by (simp add: best_fidelity_def werner_def)
  have h3: "0 < fidelity_threshold (one_active (1 / 2) 3 1)"
    by (simp add: one_active_def init_collector_def)
  have h4: "3 / 10 < fidelity_threshold (one_active (1 / 2) 3 1)"
    by (simp add: one_active_def init_collector_def)
  have "rejected_states (one_active (1 / 2) 3 1) = 0"
    by (simp add: one_active_def init_collector_def)
  with delivery_below_threshold_is_rejected [OF h1 h2 h3 h4, of 10 0] show ?thesis by simp
qed




text \<open>
  Claim C5, as stated: \<open>record_request\<close> with an id that is already active fails with a
  duplicate-request error. It does not: the call returns, and the entry that had two
  units counted is replaced by a fresh one with none.
\<close>

theorem record_request_duplicate_counterexample:
  "record_request 0 1 3 ''A'' (one_active 0 3 2) = Inr (one_active 0 3 0)"
  by (simp add: record_request_def one_active_def req_A_def init_collector_def)

text \<open>
  Claim C5, amended: \<open>record_request\<close> with an id that is already active raises no
  error; it replaces the active entry by a fresh one (no unit counted, no state stored,
  the new quota, node and request time) and changes nothing else.
\<close>

theorem record_request_replaces_active_entry:
  assumes "active_requests s rid = Some old"
  shows "record_request now rid n nid s =
     Inr (s\<lparr>active_requests := (active_requests s)(rid \<mapsto>
        \<lparr>request_id = rid, num_units = n, node_id = nid, request_time = now,
         completion_time = None, delivered_states = Some [], completed_units = 0,
         delivered_state = None\<rparr>)\<rparr>)"
  by (simp add: record_request_def)

theorem record_request_replaces_active_entry_witness:
  "active_requests (one_active 0 3 2) 1 = Some (req_A 3 2)
   \<and> record_request 7 1 4 ''B'' (one_active 0 3 2) =
       Inr ((one_active 0 3 2)\<lparr>active_requests :=
          [1 \<mapsto> (req_A 4 0)\<lparr>node_id := ''B'', request_time := 7\<rparr>]\<rparr>)"
proof -
  have h: "active_requests (one_active 0 3 2) 1 = Some (req_A 3 2)"
    by (rule one_active_entry)
  from record_request_replaces_active_entry [OF h, of 7 4 "''B''"] h show ?thesis
    by (simp add: one_active_def req_A_def)
qed

lemma accepted_delivery:
  assumes act: "active_requests s rid = Some req"
    and dl: "delivered_states req = Some dl"
    and acc: "accepted (fidelity_threshold s) d"
  shows "record_delivery (d_time d) rid (d_qubit_id d) (d_qubits d) s =
         check_complete (d_time d) rid
           (req\<lparr>completed_units := completed_units req + 1,
                 delivered_states := Some (dl @ stored_dms d)\<rparr>)
           (s\<lparr>fidelity_values := fidelity_values s @ samples d,
               active_requests := (active_requests s)(rid \<mapsto>
                 req\<lparr>completed_units := completed_units req + 1,
                      delivered_states := Some (dl @ stored_dms d)\<rparr>)\<rparr>)"
proof -
  have r: "req\<lparr>completed_units := c, delivered_states := Some dl\<rparr> = req\<lparr>completed_units := c\<rparr>" for c
    using dl by (cases req) simp
  show ?thesis
    using act dl acc
    by (auto simp: record_delivery_def try_block_def set_req_def Let_def accepted_def rejected_def
          best_fidelity_def stored_dms_def samples_def r upd_swap
          split: option.splits if_splits)
qed


lemma deliver_prefix:
  assumes "active_requests s rid = Some req"
    and "delivered_states req = Some dl"
    and "list_all (accepted (fidelity_threshold s)) ds"
    and "completed_units req + int (length ds) < num_units req"
  shows "deliver_all rid ds s =
     Inr (s\<lparr>fidelity_values := fidelity_values s @ concat (map samples ds),
            active_requests := (active_requests s)(rid \<mapsto>
              req\<lparr>completed_units := completed_units req + int (length ds),
                   delivered_states := Some (dl @ concat (map stored_dms ds))\<rparr>)\<rparr>)"
  using assms
proof (induction ds arbitrary: s req dl)
  case Nil
  have "req\<lparr>completed_units := completed_units req, delivered_states := Some dl\<rparr> = req"
    using Nil.prems(2) by (cases req) simp
  then show ?case using Nil.prems(1) by (simp add: fun_upd_idem)
next
  case (Cons d ds)
  let ?req = "req\<lparr>completed_units := completed_units req + 1,
                 delivered_states := Some (dl @ stored_dms d)\<rparr>"
  let ?s = "s\<lparr>fidelity_values := fidelity_values s @ samples d,
               active_requests := (active_requests s)(rid \<mapsto> ?req)\<rparr>"
  have step: "record_delivery (d_time d) rid (d_qubit_id d) (d_qubits d) s = Inr ?s"
    using Cons.prems
    by (simp add: accepted_delivery [OF Cons.prems(1,2)] check_complete_open)
  have pre: "active_requests ?s rid = Some ?req" "delivered_states ?req = Some (dl @ stored_dms d)"
    "list_all (accepted (fidelity_threshold ?s)) ds"
    "completed_units ?req + int (length ds) < num_units ?req"
    using Cons.prems by simp_all
  have "deliver_all rid ds ?s =
     Inr (s\<lparr>fidelity_values := fidelity_values s @ concat (map samples (d # ds)),
            active_requests := (active_requests s)(rid \<mapsto>
              req\<lparr>completed_units := completed_units req + int (length (d # ds)),
                   delivered_states := Some (dl @ concat (map stored_dms (d # ds)))\<rparr>)\<rparr>)"
    unfolding Cons.IH [OF pre] by (cases s) (simp add: add.assoc)
  then show ?case
    by (simp only: deliver_all.simps step and_then_def sum.case)
qed


lemma deliver_all_append:
  "deliver_all rid (xs @ ys) s = and_then (deliver_all rid xs s) (deliver_all rid ys)"
  by (induction xs arbitrary: s) (auto simp: and_then_def split: sum.splits)

lemma deliver_complete:
  assumes act: "active_requests s rid = Some req"
    and dl: "delivered_states req = Some []"
    and cu: "completed_units req = 0"
    and ct: "completion_time req = None"
    and acc: "list_all (accepted (fidelity_threshold s)) ds"
    and shp: "one_shape shp ds"
    and len: "int (length ds) = num_units req"
    and pos: "1 \<le> num_units req"
  shows "deliver_all rid ds s =
     Inr (s\<lparr>requests := requests s @
              [req\<lparr>completion_time := Some (d_time (last ds)),
                    delivered_states := None,
                    completed_units := num_units req,
                    delivered_state := mean_state req (concat (map stored_dms ds))\<rparr>],
            fidelity_values := fidelity_values s @ concat (map samples ds),
            active_requests := (active_requests s)(rid := None)\<rparr>)"
proof -
  from len pos have ne: "ds \<noteq> []" by auto
  define ps where "ps = butlast ds"
  define d where "d = last ds"
  have ds: "ds = ps @ [d]" using ne by (simp add: ps_def d_def)
  have lps: "int (length ps) + 1 = num_units req" using len ds by simp
  let ?req = "req\<lparr>completed_units := completed_units req + int (length ps),
                   delivered_states := Some ([] @ concat (map stored_dms ps))\<rparr>"
  let ?s = "s\<lparr>fidelity_values := fidelity_values s @ concat (map samples ps),
            active_requests := (active_requests s)(rid \<mapsto> ?req)\<rparr>"
  have pre: "deliver_all rid ps s = Inr ?s"
    using act dl acc cu lps by (intro deliver_prefix) (simp_all add: ds)
  have a1: "active_requests ?s rid = Some ?req" by simp
  have a2: "delivered_states ?req = Some (concat (map stored_dms ps))" by simp
  have a3: "accepted (fidelity_threshold ?s) d" using acc ds by simp
  let ?req2 = "?req\<lparr>completed_units := completed_units ?req + 1,
                 delivered_states := Some (concat (map stored_dms ps) @ stored_dms d)\<rparr>"
  have c1: "num_units ?req2 \<le> completed_units ?req2" using cu lps by simp
  have c2: "delivered_states ?req2 = Some (concat (map stored_dms ds))" by (simp add: ds)
  have c3: "list_all (\<lambda>m. map length m = shp) (concat (map stored_dms ds))"
    using shp by (simp add: one_shape_def)
  have last: "record_delivery (d_time d) rid (d_qubit_id d) (d_qubits d) ?s =
     Inr (s\<lparr>requests := requests s @
              [req\<lparr>completion_time := Some (d_time (last ds)),
                    delivered_states := None,
                    completed_units := num_units req,
                    delivered_state := mean_state req (concat (map stored_dms ds))\<rparr>],
            fidelity_values := fidelity_values s @ concat (map samples ds),
            active_requests := (active_requests s)(rid := None)\<rparr>)"
    unfolding accepted_delivery [OF a1 a2 a3] check_complete_closed [OF c1 c2 c3]
    using cu lps by (cases s; cases req) (simp add: ds mean_state_def cong: list.case_cong)
  show ?thesis
    by (simp only: ds deliver_all_append pre and_then_def sum.case deliver_all.simps last [unfolded ds])
qed


lemma perm_transfer:
  assumes "mset ds' = mset ds"
  shows "list_all P ds' = list_all P ds" "one_shape shp ds' = one_shape shp ds" "length ds' = length ds"
proof -
  have "set ds' = set ds" using assms by (rule mset_eq_setD)
  then show "list_all P ds' = list_all P ds" "one_shape shp ds' = one_shape shp ds"
    by (simp_all add: list_all_iff one_shape_def)
  show "length ds' = length ds" using assms by (rule mset_eq_length)
qed

text \<open>
  Claim C6, as stated, fails when the stored density matrices do not have one shape. A
  request of two units receives two accepted deliveries, a Werner pair (4 by 4) and a
  pair that shares its state with a third qubit (8 by 8). At the second delivery
  \<open>np.mean(..., axis=0)\<close> raises in \<open>_finalize_request\<close>, before the request is moved:
  the run ends with the exception and the request is not completed.
\<close>

theorem mixed_shapes_counterexample:
  "int (length mixed_run) = 2
   \<and> list_all (accepted (fidelity_threshold (init_collector 0))) mixed_run
   \<and> record_request 0 1 2 ''A'' (init_collector 0) = Inr (one_active 0 2 0)
   \<and> deliver_all 1 mixed_run (one_active 0 2 0) = Inl ShapeError"
proof (intro conjI)
  show "int (length mixed_run) = 2" by (simp add: mixed_run_def)
  show "list_all (accepted (fidelity_threshold (init_collector 0))) mixed_run"
    by (simp add: mixed_run_def accepted_def rejected_def best_fidelity_def delivery_at_def
          werner_def pair_of_three_def init_collector_def)
  show "record_request 0 1 2 ''A'' (init_collector 0) = Inr (one_active 0 2 0)"
    by (rule register_A)
  show "deliver_all 1 mixed_run (one_active 0 2 0) = Inl ShapeError"
    by (simp add: and_then_def mixed_run_def delivery_at_def
          record_delivery_def one_active_def req_A_def init_collector_def set_req_def
          check_complete_def finalize_request_def try_block_def werner_def werner_dm_def
          pair_of_three_def mixed3_dm_def np_mean_axis0_def Let_def)
qed

text \<open>
  Claim C6, amended: after a request with quota \<open>n \<ge> 1\<close> is registered, \<open>n\<close> accepted
  deliveries to it whose stored density matrices have one shape, in any order \<open>ds'\<close> of
  the deliveries \<open>ds\<close>, complete it exactly once. The run returns; the request has left
  the active set; the completed list has grown by exactly one entry, which is this
  request with its \<open>completion_time\<close> set to the time of the last delivery and \<open>n\<close> units
  counted (so it occurs once in the list when its id did not occur before); every later
  delivery to the id changes nothing; and after fewer than \<open>n\<close> deliveries the request is
  still active, without a \<open>completion_time\<close>, and the completed list is unchanged.
\<close>

theorem request_completes_exactly_once:
  assumes n: "1 \<le> n" and len: "int (length ds) = n"
    and acc: "list_all (accepted (fidelity_threshold s0)) ds"
    and shp: "one_shape shp ds"
    and perm: "mset ds' = mset ds"
    and reg: "record_request t0 rid n nid s0 = Inr s1"
  shows "\<exists>sF r. deliver_all rid ds' s1 = Inr sF
           \<and> active_requests sF rid = None
           \<and> requests sF = requests s0 @ [r]
           \<and> request_id r = rid \<and> completed_units r = n
           \<and> completion_time r = Some (d_time (last ds'))
           \<and> (list_all (\<lambda>r'. request_id r' \<noteq> rid) (requests s0) \<longrightarrow>
                length (filter (\<lambda>r'. request_id r' = rid) (requests sF)) = 1)
           \<and> (\<forall>now q qa. record_delivery now rid q qa sF = Inr sF)
           \<and> (\<forall>k < length ds'. \<exists>sk rk. deliver_all rid (take k ds') s1 = Inr sk
                  \<and> active_requests sk rid = Some rk \<and> completion_time rk = None
                  \<and> completed_units rk = int k \<and> requests sk = requests s0)"
proof -
  let ?req = "\<lparr>request_id = rid, num_units = n, node_id = nid, request_time = t0,
         completion_time = None, delivered_states = Some [], completed_units = 0,
         delivered_state = None\<rparr>"
  have s1: "s1 = s0\<lparr>active_requests := (active_requests s0)(rid \<mapsto> ?req)\<rparr>"
    using reg by (simp add: record_request_def)
  have act: "active_requests s1 rid = Some ?req" by (simp add: s1)
  have thr: "fidelity_threshold s1 = fidelity_threshold s0" by (simp add: s1)
  have acc': "list_all (accepted (fidelity_threshold s1)) ds'"
    using acc by (simp add: thr perm_transfer(1) [OF perm])
  have shp': "one_shape shp ds'" using shp by (simp add: perm_transfer(2) [OF perm])
  have len': "int (length ds') = n" using len by (simp add: perm_transfer(3) [OF perm])
  let ?r = "?req\<lparr>completion_time := Some (d_time (last ds')),
                    delivered_states := None,
                    completed_units := num_units ?req,
                    delivered_state := mean_state ?req (concat (map stored_dms ds'))\<rparr>"
  let ?sF = "s1\<lparr>requests := requests s1 @ [?r],
            fidelity_values := fidelity_values s1 @ concat (map samples ds'),
            active_requests := (active_requests s1)(rid := None)\<rparr>"
  have fin: "deliver_all rid ds' s1 = Inr ?sF"
    using acc' shp' len' n by (intro deliver_complete [OF act]) simp_all
  have gone: "active_requests ?sF rid = None" by simp
  have noop: "record_delivery now rid q qa ?sF = Inr ?sF" for now q qa
    using gone by (simp add: record_delivery_def)
  have once: "list_all (\<lambda>r'. request_id r' \<noteq> rid) (requests s0) \<longrightarrow>
                length (filter (\<lambda>r'. request_id r' = rid) (requests ?sF)) = 1"
    by (simp add: s1 list_all_iff)
  have pre: "\<exists>sk rk. deliver_all rid (take k ds') s1 = Inr sk
                  \<and> active_requests sk rid = Some rk \<and> completion_time rk = None
                  \<and> completed_units rk = int k \<and> requests sk = requests s0"
    if k: "k < length ds'" for k
  proof -
    have a: "list_all (accepted (fidelity_threshold s1)) (take k ds')"
      using acc' by (auto simp: list_all_iff dest: in_set_takeD)
    have b: "completed_units ?req + int (length (take k ds')) < num_units ?req"
      using k len' by simp
    have "delivered_states ?req = Some []" by simp
    from deliver_prefix [OF act this a b] k show ?thesis
      by (simp add: s1)
  qed
  show ?thesis
    apply (rule exI [of _ ?sF], rule exI [of _ ?r])
    using fin gone noop once pre by (simp add: s1)
qed

theorem request_completes_exactly_once_witness:
  "(1::int) \<le> 3
   \<and> int (length [delivery_at 10 None, delivery_at 20 (Some (werner 1)),
                   delivery_at 30 (Some broken)]) = 3
   \<and> list_all (accepted (fidelity_threshold (init_collector (1 / 2))))
        [delivery_at 10 None, delivery_at 20 (Some (werner 1)), delivery_at 30 (Some broken)]
   \<and> one_shape [4, 4, 4, 4]
        [delivery_at 10 None, delivery_at 20 (Some (werner 1)), delivery_at 30 (Some broken)]
   \<and> mset [delivery_at 30 (Some broken), delivery_at 10 None, delivery_at 20 (Some (werner 1))] =
      mset [delivery_at 10 None, delivery_at 20 (Some (werner 1)), delivery_at 30 (Some broken)]
   \<and> record_request 0 1 3 ''A'' (init_collector (1 / 2)) = Inr (one_active (1 / 2) 3 0)
   \<and> (\<exists>sF r. deliver_all 1
          [delivery_at 30 (Some broken), delivery_at 10 None, delivery_at 20 (Some (werner 1))]
          (one_active (1 / 2) 3 0) = Inr sF
        \<and> active_requests sF 1 = None \<and> requests sF = [r] \<and> completed_units r = 3
        \<and> completion_time r = Some 20)"
proof -
  let ?ds = "[delivery_at 10 None, delivery_at 20 (Some (werner 1)), delivery_at 30 (Some broken)]"
  let ?ds' = "[delivery_at 30 (Some broken), delivery_at 10 None, delivery_at 20 (Some (werner 1))]"
  have h1: "(1::int) \<le> 3" by simp
  have h2: "int (length ?ds) = 3" by simp
  have h3: "list_all (accepted (fidelity_threshold (init_collector (1 / 2)))) ?ds"
    by (simp add: accepted_def rejected_def best_fidelity_def delivery_at_def werner_def
          broken_def init_collector_def)
  have h4: "one_shape [4, 4, 4, 4] ?ds"
    by (simp add: one_shape_def stored_dms_def best_fidelity_def delivery_at_def werner_def
          werner_dm_def broken_def)
  have h5: "mset ?ds' = mset ?ds" by (simp add: add_mset_commute)
  have h6: "record_request 0 1 3 ''A'' (init_collector (1 / 2)) = Inr (one_active (1 / 2) 3 0)"
    by (rule register_A)
  from request_completes_exactly_once [OF h1 h2 h3 h4 h5 h6]
  obtain sF r where "deliver_all 1 ?ds' (one_active (1 / 2) 3 0) = Inr sF"
    "active_requests sF 1 = None" "requests sF = requests (init_collector (1 / 2)) @ [r]"
    "completed_units r = 3" "completion_time r = Some (d_time (last ?ds'))"
    by blast
  then have "deliver_all 1 ?ds' (one_active (1 / 2) 3 0) = Inr sF
        \<and> active_requests sF 1 = None \<and> requests sF = [r] \<and> completed_units r = 3
        \<and> completion_time r = Some 20"
    by (simp add: init_collector_def delivery_at_def)
  then have "\<exists>sF r. deliver_all 1 ?ds' (one_active (1 / 2) 3 0) = Inr sF
        \<and> active_requests sF 1 = None \<and> requests sF = [r] \<and> completed_units r = 3
        \<and> completion_time r = Some 20"
    by blast
  with h1 h2 h3 h4 h5 h6 show ?thesis by blast
qed

section \<open>Properties of the aggregator\<close>

lemmas agg_defs = aggregate_metrics_def metrics_aggregate_metrics_def request_step_def
  node_step_def metrics_node_step_def init_loop_vars_def init_node_vars_def
  node_throughput_of_def node_active_time_of_def request_latency_def unit_latency_def
  scaled_latency_def throughput_def fairness_def np_mean_def np_mean_f_def fsum_def fsub_def
  py_min_def Let_def

text \<open>
  Claim C1 fails on the code. The ledger reaches the state \<open>two_units_done\<close>: one
  request of node A (two units, registered at 0, completed at 1000). With the clock at
  2000, the snapshot of \<open>calculate_metrics\<close> is the dictionary below: it has no key \<open>fairness_throughput\<close>, \<open>fairness_latency\<close> or
  \<open>per_node_metrics\<close>, and its \<open>throughput\<close> is the rate of the last node per second,
  2 / 1000 * 1e9, not the global 2 / 2000.
\<close>

theorem snapshot_lacks_fairness_and_per_node:
  "run_from 0 2 two_units_run = Inr two_units_done
   \<and> map_sum id fst (calculate_metrics 2000 two_units_done) =
   Inr [''mean_request_latency'' \<mapsto> VFloat (Fin 1000),
        ''mean_unit_latency'' \<mapsto> VFloat (Fin 500),
        ''mean_scaled_latency'' \<mapsto> VFloat (Fin 500),
        ''rejected_states'' \<mapsto> VInt 0,
        ''throughput'' \<mapsto> VFloat (Fin 2000000),
        ''total_units'' \<mapsto> VInt 2,
        ''simulation_time'' \<mapsto> VFloat (Fin 2000),
        ''start_time'' \<mapsto> VFloat (Fin 0),
        ''end_time'' \<mapsto> VFloat (Fin 2000),
        ''total_requests'' \<mapsto> VInt 1]"
proof
  show "run_from 0 2 two_units_run = Inr two_units_done"
    unfolding run_from_def register_A
    by (simp add: and_then_def two_units_run_def delivery_at_def
          record_delivery_def one_active_def req_A_def init_collector_def set_req_def
          check_complete_def finalize_request_def two_units_done_def done_A_def)
next
  show "map_sum id fst (calculate_metrics 2000 two_units_done) =
   Inr [''mean_request_latency'' \<mapsto> VFloat (Fin 1000),
        ''mean_unit_latency'' \<mapsto> VFloat (Fin 500),
        ''mean_scaled_latency'' \<mapsto> VFloat (Fin 500),
        ''rejected_states'' \<mapsto> VInt 0,
        ''throughput'' \<mapsto> VFloat (Fin 2000000),
        ''total_units'' \<mapsto> VInt 2,
        ''simulation_time'' \<mapsto> VFloat (Fin 2000),
        ''start_time'' \<mapsto> VFloat (Fin 0),
        ''end_time'' \<mapsto> VFloat (Fin 2000),
        ''total_requests'' \<mapsto> VInt 1]"
    by (simp add: calculate_metrics_def end_simulation_def two_units_done_def done_A_def
          init_collector_def agg_defs)
qed

text \<open>
  Claim C4 fails on the code. On the same completed request the two functions return
  different dictionaries: the one of \<open>metrics.py\<close> has the key \<open>fairness_throughput\<close>
  (value 1.0) and the global \<open>throughput\<close> 2 / 2000, the one of
  \<open>aggregate_metrics.py\<close> has no such key and the \<open>throughput\<close> of the last node.
\<close>

theorem aggregators_differ:
  "lookup_key ''fairness_throughput''
     (metrics_aggregate_metrics (requests two_units_done) 2000
        (Some (fidelity_values two_units_done)) (rejected_states two_units_done)) =
     Some (VFloat (Fin 1))
   \<and> lookup_key ''fairness_throughput''
     (aggregate_metrics (requests two_units_done) 2000
        (Some (fidelity_values two_units_done)) (rejected_states two_units_done)) = None
   \<and> lookup_key ''throughput''
     (metrics_aggregate_metrics (requests two_units_done) 2000
        (Some (fidelity_values two_units_done)) (rejected_states two_units_done)) =
     Some (VFloat (Fin (1 / 1000)))
   \<and> lookup_key ''throughput''
     (aggregate_metrics (requests two_units_done) 2000
        (Some (fidelity_values two_units_done)) (rejected_states two_units_done)) =
     Some (VFloat (Fin 2000000))"
  by (simp add: lookup_key_def two_units_done_def done_A_def init_collector_def agg_defs)

text \<open>
  Claim C8 fails on the code. The ledger reaches the state \<open>five_units_done\<close>: a
  request of five units, completed by five accepted deliveries with the fidelity samples
  1, 1, 1, 1 and 1/2, whose mean is 9/10. The
  aggregator takes \<open>len(delivered_state)\<close> samples for the request, the four rows of the
  averaged density matrix, and reports the mean of the first four samples: 1.
\<close>

theorem mean_fidelity_skips_samples:
  "run_from 0 5 five_units_run = Inr five_units_done
   \<and> lookup_key ''mean_fidelity''
     (aggregate_metrics (requests five_units_done) 1000
        (Some (fidelity_values five_units_done)) (rejected_states five_units_done)) =
     Some (VFloat (Fin 1))
   \<and> np_mean (fidelity_values five_units_done) = 9 / 10"
proof (intro conjI)
  show "run_from 0 5 five_units_run = Inr five_units_done"
    unfolding run_from_def register_A
    by (simp add: and_then_def five_units_run_def delivery_at_def
          record_delivery_def one_active_def req_A_def init_collector_def set_req_def
          check_complete_def finalize_request_def five_units_done_def done_A_def
          try_block_def werner_def werner_dm_def np_mean_axis0_def dm_add_def
          five_units_state_def Let_def)
next
  show "lookup_key ''mean_fidelity''
     (aggregate_metrics (requests five_units_done) 1000
        (Some (fidelity_values five_units_done)) (rejected_states five_units_done)) =
     Some (VFloat (Fin 1))"
    by (simp add: lookup_key_def five_units_done_def done_A_def five_units_state_def
          init_collector_def agg_defs)
next
  show "np_mean (fidelity_values five_units_done) = 9 / 10"
    by (simp add: five_units_done_def init_collector_def np_mean_def)
qed

end
